theory Spec2Isabelle
  imports Main "HOL-Library.Sublist"
begin

section \<open>The mapbox-search server: startup and the lookup handler\<close>

subsection \<open>Library functions the server calls\<close>

text \<open>
  \<^verbatim>\<open>strings.Split(s, sep)\<close> of Go's standard library, as documented: the substrings of
  \<open>s\<close> between the occurrences of \<open>sep\<close>, found left to right; one field (the whole of
  \<open>s\<close>) when \<open>sep\<close> is not empty and does not occur. \<open>genSplit sep k cur s\<close> scans \<open>s\<close>:
  \<open>cur\<close> is the field read so far and \<open>k\<close> the number of bytes of a separator just
  matched that are still to be skipped. With an empty separator Go explodes \<open>s\<close> into its
  characters (bytes here).
\<close>

fun genSplit :: "string \<Rightarrow> nat \<Rightarrow> string \<Rightarrow> string \<Rightarrow> string list" where
  "genSplit sep k cur [] = [cur]"
| "genSplit sep (Suc k) cur (c # cs) = genSplit sep k cur cs"
| "genSplit sep 0 cur (c # cs) =
     (if prefix sep (c # cs) then cur # genSplit sep (length sep - 1) [] cs
      else genSplit sep 0 (cur @ [c]) cs)"

definition Split :: "string \<Rightarrow> string \<Rightarrow> string list" where
  "Split s sep = (if sep = [] then map (\<lambda>c. [c]) s else genSplit sep 0 [] s)"

text \<open>\<^verbatim>\<open>strings.ToLower\<close> on ASCII text: the letters A to Z move to a to z.\<close>

definition lower_char :: "char \<Rightarrow> char" where
  "lower_char c =
     (let n = (of_char c :: nat) in if 65 \<le> n \<and> n \<le> 90 then char_of (n + 32) else c)"

definition ToLower :: "string \<Rightarrow> string" where
  "ToLower s = map lower_char s"

subsection \<open>Startup (\<^verbatim>\<open>main\<close> of server.go)\<close>

text \<open>
  The peer pool: its own address and the peer list. \<open>peers = None\<close> is a pool on which
  \<^verbatim>\<open>Set\<close> was never called.
\<close>

record HTTPPool =
  self :: string
  peers :: "string list option"

definition NewHTTPPoolOpts :: "string \<Rightarrow> HTTPPool" where
  "NewHTTPPoolOpts httpAddr = \<lparr>self = httpAddr, peers = None\<rparr>"

definition pool_Set :: "HTTPPool \<Rightarrow> string list \<Rightarrow> HTTPPool" where
  "pool_Set p ps = p\<lparr>peers := Some ps\<rparr>"

text \<open>
  The command line (\<^verbatim>\<open>-addr\<close>, \<^verbatim>\<open>-peers-csv\<close>) and what the environment
  answers: whether OpenCensus could be enabled, and the address \<^verbatim>\<open>net.Listen\<close>
  bound (or its error).
\<close>

record flags =
  addr :: string
  peersCSV :: string

record environment =
  enableOpenCensus :: "string option"
  Listen :: "string \<Rightarrow> string + string"

datatype fatal = Fatal string

text \<open>
  \<^verbatim>\<open>main\<close> up to the point where it starts serving: \<^verbatim>\<open>log.Fatalf\<close> ends
  the process, otherwise the pool is built and, under the guard
  \<^verbatim>\<open>len(peersList) > 0\<close>, given its peers.
\<close>

definition main :: "environment \<Rightarrow> flags \<Rightarrow> fatal + HTTPPool" where
  "main env fl =
     (case enableOpenCensus env of
        Some err \<Rightarrow> Inl (Fatal (''Failed to enable OpenCensus: '' @ err))
      | None \<Rightarrow>
          let peersList = Split (peersCSV fl) '','' in
          (case Listen env (addr fl) of
             Inl err \<Rightarrow> Inl (Fatal (''Failed to bind to address: '' @ err))
           | Inr ln \<Rightarrow>
               let httpAddr = ''http://'' @ ln;
                   pool = NewHTTPPoolOpts httpAddr
               in Inr (if length peersList > 0 then pool_Set pool peersList else pool)))"

subsection \<open>The lookup handler and the two getters\<close>

definition addressLookupName :: string where
  "addressLookupName = ''address_lookup''"

definition latLonLookupName :: string where
  "latLonLookupName = ''lat_lon_lookup''"

text \<open>
  The decoded request body. \<open>'f\<close> stands for \<^verbatim>\<open>float64\<close>: the handler only formats
  the two numbers, with \<^verbatim>\<open>%.6f\<close>, and that formatting is the parameter \<open>fmt6\<close> below.
\<close>

record 'f lookupQuery =
  Lat :: 'f
  Lon :: 'f
  Name :: string

datatype group = byNameGroup | byLatLonGroup

datatype http_error = BadRequest string

text \<open>
  The \<^verbatim>\<open>switch\<close> of \<^verbatim>\<open>lookup\<close>: the group and the key that
  \<^verbatim>\<open>group.Get\<close> is called with, or the 400 answer for an unknown group.
\<close>

definition lookup :: "('f \<Rightarrow> string) \<Rightarrow> string \<Rightarrow> 'f lookupQuery \<Rightarrow> http_error + group \<times> string" where
  "lookup fmt6 groupName ld =
     (let g = ToLower groupName in
      if g = addressLookupName then Inr (byNameGroup, Name ld)
      else if g = latLonLookupName then Inr (byLatLonGroup, fmt6 (Lat ld) @ '','' @ fmt6 (Lon ld))
      else Inl (BadRequest (''unknown group '' @ groupName)))"

definition byLatLon :: "('f \<Rightarrow> string) \<Rightarrow> 'f lookupQuery \<Rightarrow> http_error + group \<times> string" where
  "byLatLon fmt6 ld = lookup fmt6 latLonLookupName ld"

definition byName :: "('f \<Rightarrow> string) \<Rightarrow> 'f lookupQuery \<Rightarrow> http_error + group \<times> string" where
  "byName fmt6 ld = lookup fmt6 addressLookupName ld"

text \<open>
  The errors of the lat/lon getter, one constructor for each \<^verbatim>\<open>return\<close> of an
  error in the source.
\<close>

datatype 'e getter_error =
    ExpectingLatLon
  | ParseLatitude 'e
  | ParseLongitude 'e
  | LookupFailed 'e
  | MarshalFailed 'e

text \<open>
  What the getters call outside this file: \<^verbatim>\<open>strconv.ParseFloat(_, 32)\<close>, the Mapbox
  client and \<^verbatim>\<open>json.Marshal\<close>.
\<close>

record ('e, 'f, 'm) services =
  ParseFloat :: "string \<Rightarrow> 'e + 'f"
  LookupLatLon :: "'f \<Rightarrow> 'f \<Rightarrow> 'e + 'm"
  LookupPlace :: "string \<Rightarrow> 'e + 'm"
  Marshal :: "'m \<Rightarrow> 'e + string"

definition latLonGetter :: "('e, 'f, 'm) services \<Rightarrow> string \<Rightarrow> 'e getter_error + string" where
  "latLonGetter sv latLonCSV =
     (let splits = Split latLonCSV '','' in
      if length splits < 2 then Inl ExpectingLatLon
      else case ParseFloat sv (splits ! 0) of
        Inl err \<Rightarrow> Inl (ParseLatitude err)
      | Inr lat \<Rightarrow>
         (case ParseFloat sv (splits ! 1) of
            Inl err \<Rightarrow> Inl (ParseLongitude err)
          | Inr lon \<Rightarrow>
             (case LookupLatLon sv lat lon of
                Inl err \<Rightarrow> Inl (LookupFailed err)
              | Inr match \<Rightarrow>
                 (case Marshal sv match of
                    Inl err \<Rightarrow> Inl (MarshalFailed err)
                  | Inr blob \<Rightarrow> Inr blob))))"

definition nameGetter :: "('e, 'f, 'm) services \<Rightarrow> string \<Rightarrow> 'e getter_error + string" where
  "nameGetter sv placeName =
     (case LookupPlace sv placeName of
        Inl err \<Rightarrow> Inl (LookupFailed err)
      | Inr match \<Rightarrow>
         (case Marshal sv match of
            Inl err \<Rightarrow> Inl (MarshalFailed err)
          | Inr blob \<Rightarrow> Inr blob))"

section \<open>The cache group that the server calls into\<close>

text \<open>
  The server only calls the cache library (\<^verbatim>\<open>groupcache.NewGroup\<close>,
  \<^verbatim>\<open>group.Get\<close>, \<^verbatim>\<open>pool.Set\<close>); the library's code is not part of the server's
  sources. The definitions of this section follow the design document of the cache group
  (its sections 3, 4 and 7), one definition for each operation it names.
\<close>

subsection \<open>Local Store\<close>

text \<open>
  Modelled from the spec: a store has a capacity, a fixed overhead per entry, and its
  entries (key and value) in order of use, the least recently used first.
\<close>

record LocalStore =
  capacity :: nat
  overhead :: nat
  entries :: "(string \<times> string) list"

text \<open>Modelled from the spec: a store is created empty.\<close>

definition NewStore :: "nat \<Rightarrow> nat \<Rightarrow> LocalStore" where
  "NewStore cap ov = \<lparr>capacity = cap, overhead = ov, entries = []\<rparr>"

text \<open>
  Modelled from the spec: the size of an entry is the length of its value plus the fixed
  overhead.
\<close>

definition entry_size :: "nat \<Rightarrow> string \<Rightarrow> nat" where
  "entry_size ov v = length v + ov"

text \<open>Modelled from the spec: the total accounted size is the sum of the entries' sizes.\<close>

fun total_size :: "nat \<Rightarrow> (string \<times> string) list \<Rightarrow> nat" where
  "total_size ov [] = 0"
| "total_size ov (e # es) = entry_size ov (snd e) + total_size ov es"

text \<open>
  Modelled from the spec: while the total size exceeds the capacity, the least recently
  used entry is evicted.
\<close>

fun evict :: "nat \<Rightarrow> nat \<Rightarrow> (string \<times> string) list \<Rightarrow> (string \<times> string) list" where
  "evict cap ov [] = []"
| "evict cap ov (e # es) = (if cap < total_size ov (e # es) then evict cap ov es else e # es)"

text \<open>Modelled from the spec: the entries of a store without the one for a key.\<close>

definition remove_key :: "string \<Rightarrow> (string \<times> string) list \<Rightarrow> (string \<times> string) list" where
  "remove_key k es = filter (\<lambda>e. fst e \<noteq> k) es"

text \<open>
  Modelled from the spec: \<^verbatim>\<open>Get\<close> of the Local Store answers the value of the key, if
  it is there, and promotes the entry to most recently used.
\<close>

definition store_Get :: "LocalStore \<Rightarrow> string \<Rightarrow> string option \<times> LocalStore" where
  "store_Get s k =
     (case map_of (entries s) k of
        None \<Rightarrow> (None, s)
      | Some v \<Rightarrow> (Some v, s\<lparr>entries := remove_key k (entries s) @ [(k, v)]\<rparr>))"

text \<open>
  Modelled from the spec: \<^verbatim>\<open>Set\<close> of the Local Store rejects an entry that alone exceeds
  the capacity (the store stays as it is); any other entry is inserted, or replaces the
  one of its key, as the most recently used, and then the store evicts down to its
  capacity.
\<close>

definition store_Set :: "LocalStore \<Rightarrow> string \<Rightarrow> string \<Rightarrow> LocalStore" where
  "store_Set s k v =
     (if capacity s < entry_size (overhead s) v then s
      else s\<lparr>entries := evict (capacity s) (overhead s) (remove_key k (entries s) @ [(k, v)])\<rparr>)"

text \<open>Modelled from the spec: a sequence of \<^verbatim>\<open>Set\<close> calls, in order.\<close>

fun store_Sets :: "LocalStore \<Rightarrow> (string \<times> string) list \<Rightarrow> LocalStore" where
  "store_Sets s [] = s"
| "store_Sets s (kv # kvs) = store_Sets (store_Set s (fst kv) (snd kv)) kvs"

subsection \<open>Peer Picker\<close>

text \<open>
  Modelled from the spec: a router knows its own identity and the current PeerSet, an
  ordered list of peer identities.
\<close>

record Router =
  self_id :: string
  peer_set :: "string list"

text \<open>
  Modelled from the spec: \<^verbatim>\<open>PickOwner\<close> answers a peer, or the sentinel for the local
  node.
\<close>

datatype owner = Local | Remote string

text \<open>
  Modelled from the spec: the member of the PeerSet that owns a key, by modular-hash
  partitioning over the peer identities; \<open>h\<close> is the hash function that all nodes share.
  An empty PeerSet has no owner.
\<close>

definition owner_of :: "(string \<Rightarrow> nat) \<Rightarrow> string list \<Rightarrow> string \<Rightarrow> string option" where
  "owner_of h ps k = (if ps = [] then None else Some (ps ! (h k mod length ps)))"

text \<open>
  Modelled from the spec: \<^verbatim>\<open>PickOwner\<close> answers the sentinel when the owner is the
  node itself (or when there is no peer to ask), the owner otherwise.
\<close>

definition PickOwner :: "(string \<Rightarrow> nat) \<Rightarrow> Router \<Rightarrow> string \<Rightarrow> owner" where
  "PickOwner h r k =
     (case owner_of h (peer_set r) k of
        None \<Rightarrow> Local
      | Some p \<Rightarrow> if p = self_id r then Local else Remote p)"

text \<open>Modelled from the spec: \<^verbatim>\<open>SetPeers\<close> replaces the PeerSet.\<close>

definition SetPeers :: "Router \<Rightarrow> string list \<Rightarrow> Router" where
  "SetPeers r ps = r\<lparr>peer_set := ps\<rparr>"

text \<open>
  Modelled from the spec: the node that a router holds responsible for a key, the
  sentinel read as the router's own identity.
\<close>

definition responsible :: "(string \<Rightarrow> nat) \<Rightarrow> Router \<Rightarrow> string \<Rightarrow> string" where
  "responsible h r k = (case PickOwner h r k of Local \<Rightarrow> self_id r | Remote p \<Rightarrow> p)"

subsection \<open>Cache Group and Single-Flight Coordinator\<close>

text \<open>
  Modelled from the spec: what a group is given from outside. \<open>Load n k\<close> is the answer of
  the origin-loader to its invocation number \<open>n\<close>, for the key \<open>k\<close> (so that a loader may
  fail once and succeed later); \<open>Fetch p g k\<close> is the answer of the peer transport for the
  peer \<open>p\<close>, the group name \<open>g\<close> and the key \<open>k\<close>, every failure class being one error;
  \<open>hash\<close> is the hash function of the router.
\<close>

record 'e collaborators =
  Load :: "nat \<Rightarrow> string \<Rightarrow> 'e + string"
  Fetch :: "string \<Rightarrow> string \<Rightarrow> string \<Rightarrow> 'e + string"
  hash :: "string \<Rightarrow> nat"

text \<open>
  Modelled from the spec: a group has a name, a Local Store and a router; \<open>loads\<close> counts
  the invocations of the origin-loader so far, and \<open>pending\<close> is the table of in-flight
  calls, giving for a key the callers that wait for its load, the first of them being
  the one that registered the call.
\<close>

record Group =
  name :: string
  store :: LocalStore
  router :: Router
  loads :: nat
  pending :: "string \<Rightarrow> nat list option"

text \<open>
  Modelled from the spec: one invocation of the origin-loader. On success the result is
  stored in the Local Store; on failure nothing is cached and the error is the result.
\<close>

definition load_locally :: "'e collaborators \<Rightarrow> Group \<Rightarrow> string \<Rightarrow> ('e + string) \<times> Group" where
  "load_locally c g k =
     (case Load c (loads g) k of
        Inl err \<Rightarrow> (Inl err, g\<lparr>loads := Suc (loads g)\<rparr>)
      | Inr v \<Rightarrow> (Inr v, g\<lparr>loads := Suc (loads g), store := store_Set (store g) k v\<rparr>))"

text \<open>
  Modelled from the spec: \<^verbatim>\<open>Get\<close> of a group, for one caller. A hit in the Local Store
  is returned at once. On a miss the router is asked for the owner: a local owner loads;
  for a remote owner the peer transport fetches, a fetched value being stored locally as
  well, and when the fetch fails the local origin-loader is invoked as a fallback, the
  peer's error being surfaced only when that fallback fails too.
\<close>

definition group_Get :: "'e collaborators \<Rightarrow> Group \<Rightarrow> string \<Rightarrow> ('e + string) \<times> Group" where
  "group_Get c g k =
     (case store_Get (store g) k of
        (Some v, s) \<Rightarrow> (Inr v, g\<lparr>store := s\<rparr>)
      | (None, s) \<Rightarrow>
         (case PickOwner (hash c) (router g) k of
            Local \<Rightarrow> load_locally c g k
          | Remote p \<Rightarrow>
             (case Fetch c p (name g) k of
                Inr v \<Rightarrow> (Inr v, g\<lparr>store := store_Set (store g) k v\<rparr>)
              | Inl terr \<Rightarrow>
                 (case load_locally c g k of
                    (Inr v, g') \<Rightarrow> (Inr v, g')
                  | (Inl lerr, g') \<Rightarrow> (Inl terr, g')))))"

text \<open>
  Modelled from the spec: a caller enters the Single-Flight Coordinator for a key. The
  first caller registers the pending call; a caller that finds one pending joins it.
\<close>

definition join :: "Group \<Rightarrow> nat \<Rightarrow> string \<Rightarrow> Group" where
  "join g w k =
     (case pending g k of
        None \<Rightarrow> g\<lparr>pending := (pending g)(k \<mapsto> [w])\<rparr>
      | Some ws \<Rightarrow> g\<lparr>pending := (pending g)(k \<mapsto> ws @ [w])\<rparr>)"

text \<open>
  Modelled from the spec: the pending call of a key completes. The origin-loader is
  invoked once, its result (value or error, not re-executed) is fanned out to every caller
  that joined, and the key is deregistered. The answer pairs each caller with what it
  receives.
\<close>

definition finish :: "'e collaborators \<Rightarrow> Group \<Rightarrow> string \<Rightarrow> (nat \<times> ('e + string)) list \<times> Group" where
  "finish c g k =
     (case pending g k of
        None \<Rightarrow> ([], g)
      | Some ws \<Rightarrow>
         (case load_locally c g k of
            (r, g') \<Rightarrow> (map (\<lambda>w. (w, r)) ws, g'\<lparr>pending := (pending g')(k := None)\<rparr>)))"

section \<open>Properties of the server\<close>

lemma genSplit_nonempty: "genSplit sep k cur s \<noteq> []"
  by (induction sep k cur s rule: genSplit.induct) auto

lemma genSplit_length: "1 \<le> length (genSplit sep k cur s)"
  using genSplit_nonempty [of sep k cur s] by (cases "genSplit sep k cur s") auto

lemma Split_comma_nonempty: "Split s '','' \<noteq> []"
  by (simp add: Split_def genSplit_nonempty)

lemma Split_comma_length: "1 \<le> length (Split s '','')"
  using Split_comma_nonempty [of s] by (cases "Split s '',''") auto

lemma Split_comma_empty: "Split [] '','' = [[]]"
  by (simp add: Split_def)

lemma main_Inr_peers:
  assumes m: "main env f = Inr pool"
  shows "peers pool = Some (Split (peersCSV f) '','')"
proof -
  have ne: "0 < length (Split (peersCSV f) '','')"
    using Split_comma_nonempty [of "peersCSV f"] by (cases "Split (peersCSV f) '',''") simp_all
  show ?thesis
  proof (cases "enableOpenCensus env")
    case (Some e)
    with m show ?thesis by (simp add: main_def)
  next
    case None
    show ?thesis
    proof (cases "Listen env (addr f)")
      case (Inl e)
      with m None show ?thesis by (simp add: main_def)
    next
      case (Inr ln)
      have "main env f = Inr (pool_Set (NewHTTPPoolOpts (''http://'' @ ln)) (Split (peersCSV f) '',''))"
        unfolding main_def Let_def using None Inr ne by simp
      with m have "pool = pool_Set (NewHTTPPoolOpts (''http://'' @ ln)) (Split (peersCSV f) '','')"
        by simp
      then show ?thesis by (simp add: pool_Set_def)
    qed
  qed
qed

text \<open>
  C9. Whatever the value of the peers-csv flag, the empty string included, splitting it
  on the comma gives at least one field, so the guard before \<^verbatim>\<open>pool.Set\<close> holds and
  every startup that gets as far as the guard sets the pool's peers to the fields of the
  flag; for the empty flag that is the one-element list holding the empty address, not
  an unset pool.
\<close>

theorem main_always_sets_peers:
  "1 \<le> length (Split (peersCSV fl) '','')
   \<and> (0 < length (Split (peersCSV fl) '','')) = True
   \<and> (\<forall>pool. main env fl = Inr pool \<longrightarrow> peers pool = Some (Split (peersCSV fl) '',''))
   \<and> (\<forall>pool. main env (fl\<lparr>peersCSV := []\<rparr>) = Inr pool \<longrightarrow> peers pool = Some [[]])"
proof (intro conjI allI impI)
  show "1 \<le> length (Split (peersCSV fl) '','')"
    by (rule Split_comma_length)
  show "(0 < length (Split (peersCSV fl) '','')) = True"
    using Split_comma_nonempty [of "peersCSV fl"] by simp
next
  fix pool assume "main env fl = Inr pool"
  then show "peers pool = Some (Split (peersCSV fl) '','')"
    by (rule main_Inr_peers)
next
  fix pool assume "main env (fl\<lparr>peersCSV := []\<rparr>) = Inr pool"
  then have "peers pool = Some (Split (peersCSV (fl\<lparr>peersCSV := []\<rparr>)) '','')"
    by (rule main_Inr_peers)
  then show "peers pool = Some [[]]"
    by (simp add: Split_comma_empty)
qed

theorem main_always_sets_peers_witness:
  "main \<lparr>enableOpenCensus = None, Listen = Inr\<rparr> \<lparr>addr = '':9877'', peersCSV = []\<rparr>
     = Inr \<lparr>self = ''http://:9877'', peers = Some [[]]\<rparr>
   \<and> peers \<lparr>self = ''http://:9877'', peers = Some [[]]\<rparr>
     = Some (Split (peersCSV \<lparr>addr = '':9877'', peersCSV = []\<rparr>) '','')"
  using main_always_sets_peers
    [of "\<lparr>addr = '':9877'', peersCSV = []\<rparr>" "\<lparr>enableOpenCensus = None, Listen = Inr\<rparr>"]
  by (simp add: main_def Split_def NewHTTPPoolOpts_def pool_Set_def)

lemma genSplit_comma_two:
  "2 \<le> length (genSplit '','' 0 cur (a @ CHR '','' # r))"
proof (induction a arbitrary: cur)
  case Nil
  have "genSplit '','' 0 [] r \<noteq> []" by (rule genSplit_nonempty)
  then have "1 \<le> length (genSplit '','' 0 [] r)" by (cases "genSplit '','' 0 [] r") simp_all
  then show ?case by simp
next
  case (Cons c a)
  show ?case
  proof (cases "c = CHR '',''")
    case True
    have "genSplit '','' 0 [] (a @ CHR '','' # r) \<noteq> []" by (rule genSplit_nonempty)
    then have "1 \<le> length (genSplit '','' 0 [] (a @ CHR '','' # r))"
      by (cases "genSplit '','' 0 [] (a @ CHR '','' # r)") simp_all
    with True show ?thesis by simp
  next
    case False
    with Cons.IH [of "cur @ [c]"] show ?thesis by simp
  qed
qed

lemma Split_comma_two: "2 \<le> length (Split (a @ '','' @ b) '','')"
  using genSplit_comma_two [of "[]" a b] by (simp add: Split_def)

lemma ToLower_latLonLookupName: "ToLower latLonLookupName = latLonLookupName"
  by code_simp

lemma latLon_not_address: "latLonLookupName \<noteq> addressLookupName"
  by (simp add: latLonLookupName_def addressLookupName_def)

lemma byLatLon_key:
  "byLatLon fmt6 ld = Inr (byLatLonGroup, fmt6 (Lat ld) @ '','' @ fmt6 (Lon ld))"
  by (simp add: byLatLon_def lookup_def Let_def ToLower_latLonLookupName latLon_not_address)

lemma lookup_latLon_key:
  assumes "lookup fmt6 groupName ld = Inr (byLatLonGroup, key)"
  shows "key = fmt6 (Lat ld) @ '','' @ fmt6 (Lon ld)"
proof (cases "ToLower groupName = addressLookupName")
  case True
  with assms show ?thesis by (simp add: lookup_def Let_def)
next
  case False
  show ?thesis
  proof (cases "ToLower groupName = latLonLookupName")
    case True
    with assms False show ?thesis by (simp add: lookup_def Let_def)
  next
    case no: False
    with assms False show ?thesis by (simp add: lookup_def Let_def)
  qed
qed

lemma latLonGetter_two:
  assumes "2 \<le> length (Split key '','')"
  shows "latLonGetter sv key \<noteq> Inl ExpectingLatLon"
proof -
  from assms have "\<not> length (Split key '','') < 2" by simp
  then show ?thesis
    unfolding latLonGetter_def Let_def
    by (simp split: sum.splits)
qed

text \<open>
  C10. The key that the lookup handler builds for the lat/lon group is two formatted
  numbers joined by a comma, whatever the formatting of a number gives. Splitting such a
  key on the comma gives at least two fields, so the lat/lon getter never answers
  \<^verbatim>\<open>expecting <lat>,<lon>\<close> for a key that the handler built.
\<close>

theorem lat_lon_key_has_two_fields:
  "byLatLon fmt6 ld = Inr (byLatLonGroup, fmt6 (Lat ld) @ '','' @ fmt6 (Lon ld))
   \<and> (\<forall>groupName key. lookup fmt6 groupName ld = Inr (byLatLonGroup, key) \<longrightarrow>
         key = fmt6 (Lat ld) @ '','' @ fmt6 (Lon ld)
         \<and> 2 \<le> length (Split key '','')
         \<and> latLonGetter sv key \<noteq> Inl ExpectingLatLon)"
proof (intro conjI allI impI)
  show "byLatLon fmt6 ld = Inr (byLatLonGroup, fmt6 (Lat ld) @ '','' @ fmt6 (Lon ld))"
    by (rule byLatLon_key)
next
  fix groupName key
  assume a: "lookup fmt6 groupName ld = Inr (byLatLonGroup, key)"
  then show k: "key = fmt6 (Lat ld) @ '','' @ fmt6 (Lon ld)" by (rule lookup_latLon_key)
  then show two: "2 \<le> length (Split key '','')" using Split_comma_two by simp
  then show "latLonGetter sv key \<noteq> Inl ExpectingLatLon" by (rule latLonGetter_two)
qed

theorem lat_lon_key_has_two_fields_witness:
  "lookup (\<lambda>x::int. if x = 37 then ''37.000000'' else ''-122.000000'') ''lat_lon_lookup''
      \<lparr>Lat = 37, Lon = -122, Name = []\<rparr> = Inr (byLatLonGroup, ''37.000000,-122.000000'')
   \<and> 2 \<le> length (Split ''37.000000,-122.000000'' '','')
   \<and> latLonGetter
        (\<lparr>ParseFloat = \<lambda>s. Inl ''syntax'', LookupLatLon = \<lambda>a b. Inr ''m'',
         LookupPlace = \<lambda>s. Inr ''m'', Marshal = \<lambda>m. Inr m\<rparr> :: (string, int, string) services)
        ''37.000000,-122.000000'' \<noteq> Inl ExpectingLatLon"
proof -
  have l: "lookup (\<lambda>x::int. if x = 37 then ''37.000000'' else ''-122.000000'') ''lat_lon_lookup''
      \<lparr>Lat = 37, Lon = -122, Name = []\<rparr> = Inr (byLatLonGroup, ''37.000000,-122.000000'')"
    by code_simp
  have "\<forall>groupName key.
      lookup (\<lambda>x::int. if x = 37 then ''37.000000'' else ''-122.000000'') groupName
        \<lparr>Lat = 37, Lon = -122, Name = []\<rparr> = Inr (byLatLonGroup, key) \<longrightarrow>
      key = (if (37::int) = 37 then ''37.000000'' else ''-122.000000'') @ '','' @
            (if (-122::int) = 37 then ''37.000000'' else ''-122.000000'')
      \<and> 2 \<le> length (Split key '','')
      \<and> latLonGetter (\<lparr>ParseFloat = \<lambda>s. Inl ''syntax'', LookupLatLon = \<lambda>a b. Inr ''m'',
         LookupPlace = \<lambda>s. Inr ''m'', Marshal = \<lambda>m. Inr m\<rparr> :: (string, int, string) services) key \<noteq> Inl ExpectingLatLon"
    using lat_lon_key_has_two_fields
      [of "\<lambda>x::int. if x = 37 then ''37.000000'' else ''-122.000000''"
          "\<lparr>Lat = 37, Lon = -122, Name = []\<rparr>"
          "\<lparr>ParseFloat = \<lambda>s. Inl ''syntax'', LookupLatLon = \<lambda>a b. Inr ''m'',
         LookupPlace = \<lambda>s. Inr ''m'', Marshal = \<lambda>m. Inr m\<rparr> :: (string, int, string) services"]
    by simp
  with l show ?thesis by blast
qed

end
